theory Spec2Isabelle
  imports Complex_Main "HOL-Library.Word"
begin

section \<open>Resource managers of kivent\_core: ModelManager and TextureManager\<close>

text \<open>
  A shallow embedding of \<^verbatim>\<open>kivent_core/managers/resource_managers.pyx\<close>.
  Every method becomes a function that takes the manager's state and returns the
  outcome of the call together with the state the call leaves behind. The state is
  returned on a raise too, because the Python methods mutate their dictionaries before
  they raise and nothing rolls the mutation back.
\<close>

subsection \<open>Errors and outcomes\<close>

datatype error = KeyError | ValueError | TypeError | ZeroDivisionError | OverflowError

text \<open>An outcome is \<open>Inl e\<close> when the call raises \<open>e\<close> and \<open>Inr v\<close> when it returns \<open>v\<close>.\<close>

type_synonym 'a outcome = "error + 'a"

subsection \<open>Python's \<^verbatim>\<open>str\<close> on an integer\<close>

definition digit_char :: "nat \<Rightarrow> char" where
  "digit_char d = ''0123456789'' ! d"

fun str_nat :: "nat \<Rightarrow> string" where
  "str_nat n = (if n < 10 then [digit_char n] else str_nat (n div 10) @ [digit_char (n mod 10)])"

declare str_nat.simps [simp del]

definition str_int :: "int \<Rightarrow> string" where
  "str_int i = (if i < 0 then CHR ''-'' # str_nat (nat (- i)) else str_nat (nat i))"

subsection \<open>Floats\<close>

text \<open>
  A Python float or C double is kept as the expression that produced it: the double
  nearest to a rational (a float literal, or an int converted to a float), the cast of a
  double to a 32-bit C float, and the sum, difference and quotient of two doubles.
  Nothing in this theory gives such an expression a numeric value, so no statement
  depends on how the operations round. What is modelled is when an operation raises.
\<close>

datatype double =
    Nearest rat
  | C_float double
  | Add double double
  | Sub double double
  | Div double double

text \<open>
  The conversion of a Python int to a float raises OverflowError exactly when the int
  would round to a magnitude of \<open>2 ^ 1024\<close> or more: from \<open>2 ^ 1024 - 2 ^ 970\<close> on,
  half-way between the largest double and \<open>2 ^ 1024\<close>.
\<close>

definition double_overflows :: "int \<Rightarrow> bool" where
  "double_overflows i = (2 ^ 1024 - 2 ^ 970 \<le> \<bar>i\<bar>)"

subsection \<open>External collaborators of the ModelManager\<close>

text \<open>
  Modelled from the spec: the vertex-format registry
  (\<^verbatim>\<open>format_registrar._vertex_formats\<close>), a read-only catalogue from a format name to
  its \<^verbatim>\<open>FormatConfig\<close>, of which the manager reads the name and the per-vertex byte
  size. It is a Python dict that \<^verbatim>\<open>allocate\<close> iterates, so it is an association list
  in iteration order; it is a parameter of every function that reads it.
\<close>

record format_config =
  fc_name :: string
  fc_size :: nat

type_synonym vertex_formats = "(string \<times> format_config) list"

text \<open>
  Modelled from the spec: a \<^verbatim>\<open>MemoryBlock\<close> is built from
  \<^verbatim>\<open>(size_in_bytes, type_size, master_index)\<close>, three C unsigned ints, and
  \<^verbatim>\<open>allocate_memory_with_buffer\<close> reserves its \<^verbatim>\<open>size_in_bytes\<close> from the master
  buffer ("reserve N bytes from buffer"). The master buffer is the list of the byte
  amounts reserved from it so far, oldest first. Exhaustion of the buffer is the
  buffer service's business and is not modelled.
\<close>

record memory_block =
  mb_size_in_bytes :: "32 word"
  mb_type_size :: "32 word"
  mb_master_index :: "32 word"

definition MemoryBlock :: "32 word \<Rightarrow> 32 word \<Rightarrow> 32 word \<Rightarrow> memory_block" where
  "MemoryBlock size_in_bytes type_size master_index =
     \<lparr>mb_size_in_bytes = size_in_bytes, mb_type_size = type_size,
      mb_master_index = master_index\<rparr>"

type_synonym buffer = "nat list"

definition allocate_memory_with_buffer :: "memory_block \<Rightarrow> buffer \<Rightarrow> buffer" where
  "allocate_memory_with_buffer block master_buffer =
     master_buffer @ [unat (mb_size_in_bytes block)]"

text \<open>The inner dict \<^verbatim>\<open>{'indices_block': ..., 'vertices_block': ...}\<close> of \<^verbatim>\<open>memory_blocks\<close>.\<close>

record block_pair =
  bp_indices_block :: memory_block
  bp_vertices_block :: memory_block

text \<open>
  Modelled from the spec: the \<^verbatim>\<open>VertexModel\<close> object, "constructed with (vertex_count,
  index_count, format, index_block, vertex_block, name)", whose constructor does not
  initialise the vertex contents, and which exposes \<^verbatim>\<open>copy_vertex_model(other)\<close>
  (bulk copy of the other model's vertex and index data) and
  \<^verbatim>\<open>set_textured_rectangle(width, height, uvs)\<close> (write a textured quad). The contents
  are kept abstractly: not yet written, or the quad that was written. Running out of
  room in the pools is the pool service's business and is not modelled.
\<close>

datatype contents = Uninitialised | Textured_rectangle double double "double list"

record vertex_model =
  vm_vertex_count :: "32 word"
  vm_index_count :: "32 word"
  vm_format_config :: format_config
  vm_index_block :: memory_block
  vm_vertex_block :: memory_block
  vm_name :: string
  vm_contents :: contents

definition VertexModel ::
  "32 word \<Rightarrow> 32 word \<Rightarrow> format_config \<Rightarrow> memory_block \<Rightarrow> memory_block \<Rightarrow> string
   \<Rightarrow> vertex_model" where
  "VertexModel vertex_count index_count format_config index_block vertex_block name =
     \<lparr>vm_vertex_count = vertex_count, vm_index_count = index_count,
      vm_format_config = format_config, vm_index_block = index_block,
      vm_vertex_block = vertex_block, vm_name = name, vm_contents = Uninitialised\<rparr>"

definition copy_vertex_model :: "vertex_model \<Rightarrow> vertex_model \<Rightarrow> vertex_model" where
  "copy_vertex_model self to_copy =
     self\<lparr>vm_vertex_count := vm_vertex_count to_copy,
          vm_index_count := vm_index_count to_copy,
          vm_contents := vm_contents to_copy\<rparr>"

definition set_textured_rectangle ::
  "vertex_model \<Rightarrow> double \<Rightarrow> double \<Rightarrow> double list \<Rightarrow> vertex_model" where
  "set_textured_rectangle self width height uvs =
     self\<lparr>vm_contents := Textured_rectangle width height uvs\<rparr>"

subsection \<open>ModelManager\<close>

text \<open>
  The fields set by \<^verbatim>\<open>__init__\<close>. \<^verbatim>\<open>allocation_size\<close> is a C unsigned int;
  entity ids are C unsigned ints; the copy counters are Python ints.
\<close>

record model_manager =
  allocation_size :: "32 word"
  memory_blocks :: "string \<rightharpoonup> block_pair"
  models :: "string \<rightharpoonup> vertex_model"
  key_counts :: "string \<rightharpoonup> int"
  model_register :: "string \<rightharpoonup> (32 word \<rightharpoonup> string)"

definition init_model_manager :: "32 word \<Rightarrow> model_manager" where
  "init_model_manager alloc_size =
     \<lparr>allocation_size = alloc_size, memory_blocks = Map.empty, models = Map.empty,
      key_counts = Map.empty, model_register = Map.empty\<rparr>"

definition register_entity_with_model ::
  "32 word \<Rightarrow> string \<Rightarrow> string \<Rightarrow> model_manager \<Rightarrow> unit outcome \<times> model_manager" where
  "register_entity_with_model entity_id system_id model_name s =
     (case model_register s model_name of
        None \<Rightarrow>
          (Inr (), s\<lparr>model_register :=
                       (model_register s)(model_name \<mapsto> [entity_id \<mapsto> system_id])\<rparr>)
      | Some bucket \<Rightarrow>
          (Inr (), s\<lparr>model_register :=
                       (model_register s)(model_name \<mapsto> bucket(entity_id \<mapsto> system_id))\<rparr>))"

text \<open>
  \<^verbatim>\<open>del self._model_register[model_name][entity_id]\<close>: the lookup of the bucket raises
  when the model name has none, the \<^verbatim>\<open>del\<close> raises when the entity is not in it.
\<close>

definition unregister_entity_with_model ::
  "32 word \<Rightarrow> string \<Rightarrow> model_manager \<Rightarrow> unit outcome \<times> model_manager" where
  "unregister_entity_with_model entity_id model_name s =
     (case model_register s model_name of
        None \<Rightarrow> (Inl KeyError, s)
      | Some bucket \<Rightarrow>
          (case bucket entity_id of
             None \<Rightarrow> (Inl KeyError, s)
           | Some system_id \<Rightarrow>
               (Inr (), s\<lparr>model_register :=
                            (model_register s)(model_name \<mapsto> bucket(entity_id := None))\<rparr>)))"

text \<open>
  The tail of \<^verbatim>\<open>load_model\<close>, from the lookup of the format's blocks on: build the
  model and store it under \<open>name\<close>.
\<close>

definition store_model ::
  "format_config \<Rightarrow> string \<Rightarrow> 32 word \<Rightarrow> 32 word \<Rightarrow> string \<Rightarrow> model_manager
   \<Rightarrow> string outcome \<times> model_manager" where
  "store_model format_config format_name vertex_count index_count name s =
     (case memory_blocks s format_name of
        None \<Rightarrow> (Inl KeyError, s)
      | Some blocks \<Rightarrow>
          (let vertex_block = bp_vertices_block blocks;
               index_block = bp_indices_block blocks;
               model = VertexModel vertex_count index_count format_config
                         index_block vertex_block name
           in (Inr name, s\<lparr>models := (models s)(name \<mapsto> model)\<rparr>)))"

text \<open>
  \<^verbatim>\<open>load_model\<close>. In the copy branch the source rebinds \<^verbatim>\<open>name\<close> to the derived
  name and then runs \<^verbatim>\<open>self._key_counts[name] += 1\<close>, which reads and writes the
  counter of the derived name: it raises when the derived name has no counter.
\<close>

definition load_model ::
  "vertex_formats \<Rightarrow> string \<Rightarrow> 32 word \<Rightarrow> 32 word \<Rightarrow> string \<Rightarrow> bool \<Rightarrow> model_manager
   \<Rightarrow> string outcome \<times> model_manager" where
  "load_model vertex_formats format_name vertex_count index_count name do_copy s =
     (case map_of vertex_formats format_name of
        None \<Rightarrow> (Inl KeyError, s)
      | Some format_config \<Rightarrow>
          (case key_counts s name of
             None \<Rightarrow>
               store_model format_config format_name vertex_count index_count name
                 (s\<lparr>key_counts := (key_counts s)(name \<mapsto> 0)\<rparr>)
           | Some count \<Rightarrow>
               if \<not> do_copy then (Inr name, s)
               else
                 (let name' = name @ ''_'' @ str_int count
                  in (case key_counts s name' of
                        None \<Rightarrow> (Inl KeyError, s)
                      | Some count' \<Rightarrow>
                          store_model format_config format_name vertex_count index_count
                            name' (s\<lparr>key_counts := (key_counts s)(name' \<mapsto> count' + 1)\<rparr>)))))"

text \<open>
  \<^verbatim>\<open>copy_model\<close>. The model to copy (the local \<^verbatim>\<open>copy_model\<close> of the source, here
  \<open>to_copy\<close>) is read before \<^verbatim>\<open>load_model\<close> runs, so it is the old object even
  when \<^verbatim>\<open>load_model\<close> stores a new model under the same name.
\<close>

definition copy_model ::
  "vertex_formats \<Rightarrow> string \<Rightarrow> string option \<Rightarrow> model_manager
   \<Rightarrow> string outcome \<times> model_manager" where
  "copy_model vertex_formats model_to_copy model_name s =
     (case models s model_to_copy of
        None \<Rightarrow> (Inl KeyError, s)
      | Some to_copy \<Rightarrow>
          (let format_name = fc_name (vm_format_config to_copy);
               model_name' = (case model_name of None \<Rightarrow> model_to_copy | Some n \<Rightarrow> n)
           in (case load_model vertex_formats format_name (vm_vertex_count to_copy)
                      (vm_index_count to_copy) model_name' True s of
                 (Inl e, s1) \<Rightarrow> (Inl e, s1)
               | (Inr real_name, s1) \<Rightarrow>
                   (case models s1 real_name of
                      None \<Rightarrow> (Inl KeyError, s1)
                    | Some new_model \<Rightarrow>
                        (Inr real_name,
                         s1\<lparr>models := (models s1)(real_name \<mapsto>
                                          copy_vertex_model new_model to_copy)\<rparr>)))))"

definition unload_model :: "string \<Rightarrow> model_manager \<Rightarrow> unit outcome \<times> model_manager" where
  "unload_model model_name s =
     (case models s model_name of
        None \<Rightarrow> (Inl KeyError, s)
      | Some model \<Rightarrow>
          (Inr (), s\<lparr>models := (models s)(model_name := None),
                     model_register := (model_register s)(model_name := None),
                     key_counts := (key_counts s)(model_name := None)\<rparr>))"

text \<open>
  The loop of \<^verbatim>\<open>allocate\<close> over \<^verbatim>\<open>formats_to_allocate\<close>, a dict from a format name
  to the tuple (bytes for vertex data, bytes for index data), here the list of its
  items in iteration order. \<^verbatim>\<open>total_count\<close> is a C unsigned int: the sum is formed
  on Python ints and the conversion back raises when it does not fit. The log line
  divides \<^verbatim>\<open>vertex_size\<close> by the format's size, which raises when that is zero.
  Both blocks are built as \<^verbatim>\<open>MemoryBlock(self.allocation_size//2, 1, 1)\<close>.
\<close>

fun allocate_formats ::
  "vertex_formats \<Rightarrow> (string \<times> int \<times> int) list \<Rightarrow> 32 word \<Rightarrow> buffer \<Rightarrow> model_manager
   \<Rightarrow> (32 word) outcome \<times> buffer \<times> model_manager" where
  "allocate_formats vertex_formats [] total_count master_buffer s =
     (Inr total_count, master_buffer, s)"
| "allocate_formats vertex_formats ((format, vertex_size, index_size) # rest)
     total_count master_buffer s =
     (case map_of vertex_formats format of
        None \<Rightarrow> (Inl KeyError, master_buffer, s)
      | Some format_config \<Rightarrow>
          (let indices_block = MemoryBlock (allocation_size s div 2) 1 1;
               vertices_block = MemoryBlock (allocation_size s div 2) 1 1;
               buffer1 = allocate_memory_with_buffer vertices_block master_buffer;
               buffer2 = allocate_memory_with_buffer indices_block buffer1;
               s1 = s\<lparr>memory_blocks := (memory_blocks s)(format \<mapsto>
                        \<lparr>bp_indices_block = indices_block,
                         bp_vertices_block = vertices_block\<rparr>)\<rparr>;
               total = int (unat total_count) + (vertex_size + index_size)
           in if total < 0 \<or> 2 ^ 32 \<le> total then (Inl OverflowError, buffer2, s1)
              else if fc_size format_config = 0 then (Inl ZeroDivisionError, buffer2, s1)
              else allocate_formats vertex_formats rest (word_of_int total) buffer2 s1))"

definition default_formats :: "vertex_formats \<Rightarrow> 32 word \<Rightarrow> (string \<times> int \<times> int) list" where
  "default_formats vertex_formats alloc_size =
     map (\<lambda>(key, config).
            (key, int (unat (alloc_size - alloc_size div 4)), int (unat (alloc_size div 4))))
       vertex_formats"

definition allocate ::
  "vertex_formats \<Rightarrow> buffer \<Rightarrow> (string \<times> int \<times> int) list \<Rightarrow> model_manager
   \<Rightarrow> (32 word) outcome \<times> buffer \<times> model_manager" where
  "allocate vertex_formats master_buffer formats_to_allocate s =
     allocate_formats vertex_formats
       (if formats_to_allocate = [] then default_formats vertex_formats (allocation_size s)
        else formats_to_allocate)
       0 master_buffer s"

subsection \<open>TextureManager\<close>

text \<open>
  The values an atlas description holds where a number is expected: JSON integers
  (Python ints), JSON numbers with a fraction or an exponent (Python floats) and JSON
  strings. Arrays, objects, booleans and null in that place are not modelled.
\<close>

datatype pyval = PyInt int | PyFloat double | PyStr string

text \<open>
  Python's \<^verbatim>\<open>+\<close> on two such values. Two ints add exactly. An int added to a float
  is converted to a float first, which may raise OverflowError. Two strings concatenate.
  Anything else is a TypeError.
\<close>

fun py_add :: "pyval \<Rightarrow> pyval \<Rightarrow> pyval outcome" where
  "py_add (PyInt a) (PyInt b) = Inr (PyInt (a + b))"
| "py_add (PyInt a) (PyFloat b) =
     (if double_overflows a then Inl OverflowError
      else Inr (PyFloat (Add (Nearest (of_int a)) b)))"
| "py_add (PyFloat a) (PyInt b) =
     (if double_overflows b then Inl OverflowError
      else Inr (PyFloat (Add a (Nearest (of_int b)))))"
| "py_add (PyFloat a) (PyFloat b) = Inr (PyFloat (Add a b))"
| "py_add (PyStr a) (PyStr b) = Inr (PyStr (a @ b))"
| "py_add _ _ = Inl TypeError"

text \<open>
  \<^verbatim>\<open>w = <float>size[0]\<close>: the int is converted to a double and cast to a C float.
  The conversion raises OverflowError for an int beyond the double range, which
  \<^verbatim>\<open>load_atlas\<close> tests where the source has the cast. The result is zero exactly
  when the int is zero.
\<close>

definition float_of_size :: "int \<Rightarrow> double" where
  "float_of_size n = C_float (Nearest (of_int n))"

text \<open>
  Python's \<^verbatim>\<open>/\<close> of such a value by the float made from the int \<open>n\<close> as above. An int
  dividend is converted to a float first, which may raise OverflowError; then a zero
  divisor raises ZeroDivisionError. A string dividend is a TypeError.
\<close>

fun py_div :: "pyval \<Rightarrow> int \<Rightarrow> double outcome" where
  "py_div (PyInt a) n =
     (if double_overflows a then Inl OverflowError
      else if n = 0 then Inl ZeroDivisionError
      else Inr (Div (Nearest (of_int a)) (float_of_size n)))"
| "py_div (PyFloat a) n =
     (if n = 0 then Inl ZeroDivisionError else Inr (Div a (float_of_size n)))"
| "py_div (PyStr a) n = Inl TypeError"

text \<open>
  Modelled from the spec: a decoded texture, of which the manager reads the pixel size
  (two ints). \<open>tex_source\<close> stands for the pixel data, so that two textures can differ.
\<close>

record texture =
  tex_source :: string
  tex_size :: "int \<times> int"

record texture_manager =
  textures :: "int \<rightharpoonup> texture"
  keys :: "string \<rightharpoonup> int"
  key_index :: "int \<rightharpoonup> string"
  texkey_index :: "int \<rightharpoonup> int"
  key_count :: int
  sizes :: "int \<rightharpoonup> pyval \<times> pyval"
  uvs :: "int \<rightharpoonup> double list"
  groups :: "int \<rightharpoonup> int list"

definition init_texture_manager :: texture_manager where
  "init_texture_manager =
     \<lparr>textures = Map.empty, keys = Map.empty, key_index = Map.empty,
      texkey_index = Map.empty, key_count = 0, sizes = Map.empty, uvs = Map.empty,
      groups = Map.empty\<rparr>"

text \<open>\<^verbatim>\<open>os.path.basename\<close> and the root of \<^verbatim>\<open>os.path.splitext\<close>, on POSIX paths.\<close>

definition basename :: "string \<Rightarrow> string" where
  "basename p = rev (takeWhile (\<lambda>c. c \<noteq> CHR ''/'') (rev p))"

definition splitext_root :: "string \<Rightarrow> string" where
  "splitext_root p =
     (let b = basename p;
          dir = take (length p - length b) p;
          rest = dropWhile (\<lambda>c. c \<noteq> CHR ''.'') (rev b)
      in if rest = [] then p
         else (let root = rev (tl rest)
               in if \<forall>c \<in> set root. c = CHR ''.'' then p else dir @ root))"

definition size_pair :: "texture \<Rightarrow> pyval \<times> pyval" where
  "size_pair texture =
     (PyInt (fst (tex_size texture)), PyInt (snd (tex_size texture)))"

definition load_texture ::
  "string \<Rightarrow> texture \<Rightarrow> texture_manager \<Rightarrow> int outcome \<times> texture_manager" where
  "load_texture name texture s =
     (case keys s name of
        Some k \<Rightarrow> (Inl KeyError, s)
      | None \<Rightarrow>
          (let kc = key_count s
           in (Inr kc,
               s\<lparr>textures := (textures s)(kc \<mapsto> texture),
                 sizes := (sizes s)(kc \<mapsto> size_pair texture),
                 keys := (keys s)(name \<mapsto> kc),
                 key_index := (key_index s)(kc \<mapsto> name),
                 texkey_index := (texkey_index s)(kc \<mapsto> kc),
                 uvs := (uvs s)(kc \<mapsto> [Nearest 0, Nearest 0, Nearest 1, Nearest 1]),
                 groups := (groups s)(kc \<mapsto> [kc]),
                 key_count := kc + 1\<rparr>)))"

text \<open>
  \<^verbatim>\<open>load_image\<close>: the decoding of the file at \<open>source\<close> is external and its result,
  \<open>texture\<close>, is an argument. The body after the name is derived is that of
  \<^verbatim>\<open>load_texture\<close>, statement for statement up to the order of independent writes.
\<close>

definition load_image ::
  "string \<Rightarrow> texture \<Rightarrow> texture_manager \<Rightarrow> int outcome \<times> texture_manager" where
  "load_image source texture s =
     (let name = splitext_root (basename source)
      in (case keys s name of
            Some k \<Rightarrow> (Inl KeyError, s)
          | None \<Rightarrow>
              (let kc = key_count s
               in (Inr kc,
                   s\<lparr>textures := (textures s)(kc \<mapsto> texture),
                     keys := (keys s)(name \<mapsto> kc),
                     sizes := (sizes s)(kc \<mapsto> size_pair texture),
                     key_index := (key_index s)(kc \<mapsto> name),
                     texkey_index := (texkey_index s)(kc \<mapsto> kc),
                     uvs := (uvs s)(kc \<mapsto> [Nearest 0, Nearest 0, Nearest 1, Nearest 1]),
                     groups := (groups s)(kc \<mapsto> [kc]),
                     key_count := kc + 1\<rparr>))))"

text \<open>
  The body of the loop of \<^verbatim>\<open>unload_texture\<close> for one key of the group. Each
  \<^verbatim>\<open>del\<close> raises when its key is absent, after the deletions before it have been
  done.
\<close>

definition unload_key :: "int \<Rightarrow> texture_manager \<Rightarrow> unit outcome \<times> texture_manager" where
  "unload_key key s =
     (case key_index s key of
        None \<Rightarrow> (Inl KeyError, s)
      | Some name \<Rightarrow>
          (let s1 = s\<lparr>key_index := (key_index s)(key := None)\<rparr>
           in if uvs s1 key = None then (Inl KeyError, s1)
              else (let s2 = s1\<lparr>uvs := (uvs s1)(key := None)\<rparr>
                    in if texkey_index s2 key = None then (Inl KeyError, s2)
                       else (let s3 = s2\<lparr>texkey_index := (texkey_index s2)(key := None)\<rparr>
                             in if keys s3 name = None then (Inl KeyError, s3)
                                else (let s4 = s3\<lparr>keys := (keys s3)(name := None)\<rparr>
                                      in if sizes s4 key = None then (Inl KeyError, s4)
                                         else (Inr (),
                                               s4\<lparr>sizes := (sizes s4)(key := None)\<rparr>))))))"

text \<open>The loop itself, over the list stored in \<^verbatim>\<open>_groups\<close>.\<close>

fun unload_keys :: "int list \<Rightarrow> texture_manager \<Rightarrow> unit outcome \<times> texture_manager" where
  "unload_keys [] s = (Inr (), s)"
| "unload_keys (key # rest) s =
     (case unload_key key s of
        (Inl e, s1) \<Rightarrow> (Inl e, s1)
      | (Inr u, s1) \<Rightarrow> unload_keys rest s1)"

text \<open>
  \<^verbatim>\<open>unload_texture\<close>. The group is looked up under the texkey of \<open>name\<close> itself
  (\<^verbatim>\<open>self._groups[self._keys[name]]\<close>), not under its entry in \<^verbatim>\<open>_texkey_index\<close>.
\<close>

definition unload_texture :: "string \<Rightarrow> texture_manager \<Rightarrow> unit outcome \<times> texture_manager" where
  "unload_texture name s =
     (case keys s name of
        None \<Rightarrow> (Inl KeyError, s)
      | Some key_index' \<Rightarrow>
          (case groups s key_index' of
             None \<Rightarrow> (Inl KeyError, s)
           | Some texture_keys \<Rightarrow>
               (case unload_keys texture_keys s of
                  (Inl e, s1) \<Rightarrow> (Inl e, s1)
                | (Inr u, s1) \<Rightarrow>
                    if groups s1 key_index' = None then (Inl KeyError, s1)
                    else (let s2 = s1\<lparr>groups := (groups s1)(key_index' := None)\<rparr>
                          in if textures s2 key_index' = None then (Inl KeyError, s2)
                             else (Inr (),
                                   s2\<lparr>textures := (textures s2)(key_index' := None)\<rparr>)))))"

text \<open>The lookups: a missing key raises.\<close>

definition lookup :: "('k \<rightharpoonup> 'v) \<Rightarrow> 'k \<Rightarrow> 'v outcome" where
  "lookup m k = (case m k of None \<Rightarrow> Inl KeyError | Some v \<Rightarrow> Inr v)"

definition get_texkey_from_name :: "string \<Rightarrow> texture_manager \<Rightarrow> int outcome" where
  "get_texkey_from_name name s = lookup (keys s) name"

definition get_uvs :: "int \<Rightarrow> texture_manager \<Rightarrow> (double list) outcome" where
  "get_uvs tex_key s = lookup (uvs s) tex_key"

definition get_size :: "int \<Rightarrow> texture_manager \<Rightarrow> (pyval \<times> pyval) outcome" where
  "get_size tex_key s = lookup (sizes s) tex_key"

definition get_texture :: "int \<Rightarrow> texture_manager \<Rightarrow> texture outcome" where
  "get_texture tex_key s = lookup (textures s) tex_key"

definition get_groupkey_from_texkey :: "int \<Rightarrow> texture_manager \<Rightarrow> int outcome" where
  "get_groupkey_from_texkey tex_key s = lookup (texkey_index s) tex_key"

definition get_texname_from_texkey :: "int \<Rightarrow> texture_manager \<Rightarrow> string outcome" where
  "get_texname_from_texkey tex_key s = lookup (key_index s) tex_key"

definition get_texkey_in_group :: "int \<Rightarrow> int \<Rightarrow> texture_manager \<Rightarrow> bool outcome" where
  "get_texkey_in_group tex_key group_key s =
     (case groups s group_key of
        None \<Rightarrow> Inl KeyError
      | Some members \<Rightarrow> Inr (tex_key \<in> set members))"

text \<open>
  The list \<^verbatim>\<open>[x1/w, 1.-y1/h, x2/w, 1.-y2/h]\<close> with \<^verbatim>\<open>x2, y2 = x1 + kw, y1 + kh\<close>,
  evaluated in the source's order; the first operation that raises decides the error.
  \<open>w\<close> and \<open>h\<close> are the ints of the image's size, from which the source has made the
  C floats it divides by.
\<close>

definition atlas_uvs ::
  "pyval \<Rightarrow> pyval \<Rightarrow> pyval \<Rightarrow> pyval \<Rightarrow> int \<Rightarrow> int \<Rightarrow> (double list) outcome" where
  "atlas_uvs kx ky kw kh w h =
     (let x1 = kx; y1 = ky
      in (case py_add x1 kw of Inl e \<Rightarrow> Inl e | Inr x2 \<Rightarrow>
         (case py_add y1 kh of Inl e \<Rightarrow> Inl e | Inr y2 \<Rightarrow>
         (case py_div x1 w of Inl e \<Rightarrow> Inl e | Inr u0 \<Rightarrow>
         (case py_div y1 h of Inl e \<Rightarrow> Inl e | Inr q1 \<Rightarrow>
         (case py_div x2 w of Inl e \<Rightarrow> Inl e | Inr u1 \<Rightarrow>
         (case py_div y2 h of Inl e \<Rightarrow> Inl e | Inr q2 \<Rightarrow>
            Inr [u0, Sub (Nearest 1) q1, u1, Sub (Nearest 1) q2])))))))"

text \<open>
  The body of the inner loop of \<^verbatim>\<open>load_atlas\<close> for one sub-image \<open>key\<close> with its
  rectangle. \<open>group_list\<close> is the list object stored in \<^verbatim>\<open>_groups[atlas_key]\<close>:
  the append through \<^verbatim>\<open>group_list_a\<close> changes that entry, and the new list is
  returned for the next round. The rectangle is unpacked into four names, which raises
  unless it has exactly four elements. The name-to-key entry is written with no test of
  whether the name is already there. The counter is incremented only after the UV list
  has been computed.
\<close>

definition load_atlas_entry ::
  "int \<Rightarrow> int \<Rightarrow> int \<Rightarrow> int list \<Rightarrow> string \<Rightarrow> pyval list \<Rightarrow> texture_manager
   \<Rightarrow> (int list) outcome \<times> texture_manager" where
  "load_atlas_entry atlas_key w h group_list key rect s =
     (if length rect \<noteq> 4 then (Inl ValueError, s)
      else
        (let kx = rect ! 0; ky = rect ! 1; kw = rect ! 2; kh = rect ! 3;
             key_index' = key_count s;
             s1 = s\<lparr>keys := (keys s)(key \<mapsto> key_index'),
                    key_index := (key_index s)(key_index' \<mapsto> key),
                    texkey_index := (texkey_index s)(key_index' \<mapsto> atlas_key),
                    sizes := (sizes s)(key_index' \<mapsto> (kw, kh))\<rparr>
         in (case atlas_uvs kx ky kw kh w h of
               Inl e \<Rightarrow> (Inl e, s1)
             | Inr uv \<Rightarrow>
                 (let group_list' = group_list @ [key_index'];
                      s2 = s1\<lparr>uvs := (uvs s1)(key_index' \<mapsto> uv),
                              key_count := key_count s1 + 1,
                              groups := (groups s1)(atlas_key \<mapsto> group_list')\<rparr>
                  in (Inr group_list', s2)))))"

text \<open>The inner loop itself, over the sub-images of one image.\<close>

fun load_atlas_content ::
  "int \<Rightarrow> int \<Rightarrow> int \<Rightarrow> int list \<Rightarrow> (string \<times> pyval list) list \<Rightarrow> texture_manager
   \<Rightarrow> unit outcome \<times> texture_manager" where
  "load_atlas_content atlas_key w h group_list [] s = (Inr (), s)"
| "load_atlas_content atlas_key w h group_list ((key, rect) # rest) s =
     (case load_atlas_entry atlas_key w h group_list key rect s of
        (Inl e, s1) \<Rightarrow> (Inl e, s1)
      | (Inr group_list', s1) \<Rightarrow> load_atlas_content atlas_key w h group_list' rest s1)"

text \<open>
  \<^verbatim>\<open>load_atlas\<close>. Reading the JSON file and decoding the images are external: the
  argument is the parsed description in iteration order, each image file name with its
  decoded texture and its mapping from a sub-image name to a rectangle. The casts
  \<^verbatim>\<open>w = <float>size[0]\<close> and \<^verbatim>\<open>h = <float>size[1]\<close> come before the image is
  registered and raise OverflowError for an int beyond the double range.
\<close>

fun load_atlas ::
  "(string \<times> texture \<times> (string \<times> pyval list) list) list \<Rightarrow> texture_manager
   \<Rightarrow> unit outcome \<times> texture_manager" where
  "load_atlas [] s = (Inr (), s)"
| "load_atlas ((imgname, texture, atlas_content) # rest) s =
     (let name = basename imgname;
          size = tex_size texture;
          w = fst size;
          h = snd size
      in if double_overflows w \<or> double_overflows h then (Inl OverflowError, s)
         else
           (case load_texture name texture s of
              (Inl e, s1) \<Rightarrow> (Inl e, s1)
            | (Inr atlas_key, s1) \<Rightarrow>
                (case groups s1 atlas_key of
                   None \<Rightarrow> (Inl KeyError, s1)
                 | Some group_list \<Rightarrow>
                     (case load_atlas_content atlas_key w h group_list atlas_content s1 of
                        (Inl e, s2) \<Rightarrow> (Inl e, s2)
                      | (Inr u, s2) \<Rightarrow> load_atlas rest s2))))"

subsection \<open>ModelManager, continued: the textured rectangle\<close>

text \<open>
  \<^verbatim>\<open>load_textured_rectangle\<close> reads the module-level \<^verbatim>\<open>texture_manager\<close>, here the
  argument \<open>tm\<close>. The texture is looked up after \<^verbatim>\<open>load_model\<close> has returned.
  \<open>width\<close> and \<open>height\<close> are C floats.
\<close>

definition load_textured_rectangle ::
  "vertex_formats \<Rightarrow> texture_manager \<Rightarrow> string \<Rightarrow> double \<Rightarrow> double \<Rightarrow> string \<Rightarrow> string
   \<Rightarrow> bool
   \<Rightarrow> model_manager \<Rightarrow> string outcome \<times> model_manager" where
  "load_textured_rectangle vertex_formats tm format_name width height texture_key name
     do_copy s =
     (case load_model vertex_formats format_name 4 6 name do_copy s of
        (Inl e, s1) \<Rightarrow> (Inl e, s1)
      | (Inr model_name, s1) \<Rightarrow>
          (case models s1 model_name of
             None \<Rightarrow> (Inl KeyError, s1)
           | Some model \<Rightarrow>
               (case get_texkey_from_name texture_key tm of
                  Inl e \<Rightarrow> (Inl e, s1)
                | Inr texkey \<Rightarrow>
                    (case get_uvs texkey tm of
                       Inl e \<Rightarrow> (Inl e, s1)
                     | Inr uv \<Rightarrow>
                         (Inr model_name,
                          s1\<lparr>models := (models s1)(model_name \<mapsto>
                                 set_textured_rectangle model width height uv)\<rparr>)))))"

section \<open>Notions used to state the properties\<close>

subsection \<open>ModelManager\<close>

text \<open>The system id registered for an entity under a model name, if any.\<close>

definition registration :: "model_manager \<Rightarrow> string \<Rightarrow> 32 word \<Rightarrow> string option" where
  "registration s model_name entity_id =
     (case model_register s model_name of None \<Rightarrow> None | Some bucket \<Rightarrow> bucket entity_id)"

text \<open>
  Every name that holds a model also holds a copy counter. The manager starts in such a
  state and each of its methods keeps it (lemmas \<open>names_consistent_*\<close> below), whether
  the method returns or raises.
\<close>

definition names_consistent :: "model_manager \<Rightarrow> bool" where
  "names_consistent s = (\<forall>n. models s n \<noteq> None \<longrightarrow> key_counts s n \<noteq> None)"

subsection \<open>TextureManager\<close>

text \<open>
  Every key of the list has its UVs, its size, its group key and a name of its own that
  leads back to it.
\<close>

definition members_complete :: "texture_manager \<Rightarrow> int list \<Rightarrow> bool" where
  "members_complete s ks =
     (\<forall>k \<in> set ks. uvs s k \<noteq> None \<and> texkey_index s k \<noteq> None \<and> sizes s k \<noteq> None \<and>
         (\<exists>name. key_index s k = Some name \<and> keys s name = Some k))"

text \<open>
  A group as \<^verbatim>\<open>load_image\<close>, \<^verbatim>\<open>load_texture\<close> and \<^verbatim>\<open>load_atlas\<close> leave it when
  no name is registered twice: the group key \<open>g\<close> holds a texture and the list \<open>ks\<close> of
  its members, no member is listed twice, and the members are complete.
\<close>

definition group_consistent :: "texture_manager \<Rightarrow> int \<Rightarrow> int list \<Rightarrow> bool" where
  "group_consistent s g ks =
     (groups s g = Some ks \<and> distinct ks \<and> textures s g \<noteq> None \<and> members_complete s ks)"

text \<open>The names of the members of a list of keys.\<close>

definition member_names :: "texture_manager \<Rightarrow> int list \<Rightarrow> string set" where
  "member_names s ks = {name. \<exists>k \<in> set ks. key_index s k = Some name}"

text \<open>The state with the records of the keys of a list, and their names, removed.\<close>

definition without_keys :: "texture_manager \<Rightarrow> int list \<Rightarrow> texture_manager" where
  "without_keys s ks =
     s\<lparr>key_index := (\<lambda>k. if k \<in> set ks then None else key_index s k),
       uvs := (\<lambda>k. if k \<in> set ks then None else uvs s k),
       texkey_index := (\<lambda>k. if k \<in> set ks then None else texkey_index s k),
       keys := (\<lambda>name. if name \<in> member_names s ks then None else keys s name),
       sizes := (\<lambda>k. if k \<in> set ks then None else sizes s k)\<rparr>"

text \<open>
  The expressions \<^verbatim>\<open>load_atlas\<close> evaluates for a rectangle \<open>[x, y, kw, kh]\<close> of ints
  in an image of size \<open>(W, H)\<close>.
\<close>

definition int_rectangle_uvs :: "int \<Rightarrow> int \<Rightarrow> int \<Rightarrow> int \<Rightarrow> int \<Rightarrow> int \<Rightarrow> double list" where
  "int_rectangle_uvs x y kw kh W H =
     [Div (Nearest (of_int x)) (float_of_size W),
      Sub (Nearest 1) (Div (Nearest (of_int y)) (float_of_size H)),
      Div (Nearest (of_int (x + kw))) (float_of_size W),
      Sub (Nearest 1) (Div (Nearest (of_int (y + kh))) (float_of_size H))]"

text \<open>The two states hold the same records under every key below \<open>b\<close>.\<close>

definition agree_below :: "int \<Rightarrow> texture_manager \<Rightarrow> texture_manager \<Rightarrow> bool" where
  "agree_below b s s' =
     (\<forall>k. k < b \<longrightarrow> uvs s' k = uvs s k \<and> sizes s' k = sizes s k \<and>
        key_index s' k = key_index s k \<and> texkey_index s' k = texkey_index s k \<and>
        textures s' k = textures s k)"

text \<open>
  The calls that change a texture manager, and the run of a list of calls, each on the
  state the one before it left, whether that one returned or raised. A run is clean when
  none of its calls raises TypeError, ZeroDivisionError or OverflowError, the three
  errors of the arithmetic of \<^verbatim>\<open>load_atlas\<close>.
\<close>

datatype tm_call =
    Load_image string texture
  | Load_texture string texture
  | Unload_texture string
  | Load_atlas "(string \<times> texture \<times> (string \<times> pyval list) list) list"

definition raised :: "'a outcome \<Rightarrow> error option" where
  "raised r = (case r of Inl e \<Rightarrow> Some e | Inr v \<Rightarrow> None)"


fun perform :: "tm_call \<Rightarrow> texture_manager \<Rightarrow> error option \<times> texture_manager" where
  "perform (Load_image source texture) s = apfst raised (load_image source texture s)"
| "perform (Load_texture name texture) s = apfst raised (load_texture name texture s)"
| "perform (Unload_texture name) s = apfst raised (unload_texture name s)"
| "perform (Load_atlas atlas_data) s = apfst raised (load_atlas atlas_data s)"

fun run :: "tm_call list \<Rightarrow> texture_manager \<Rightarrow> texture_manager" where
  "run [] s = s"
| "run (c # cs) s = run cs (snd (perform c s))"





subsection \<open>Concrete managers\<close>

text \<open>
  One registered vertex format of 16 bytes per vertex; a manager with the default
  allocation size of 100 KiB after \<^verbatim>\<open>allocate(buffer, {})\<close>; the same after
  \<^verbatim>\<open>load_model('vertex_format_4f', 4, 6, 'n')\<close>; and one with two registered entities.
\<close>

definition example_formats :: vertex_formats where
  "example_formats = [(''vertex_format_4f'', \<lparr>fc_name = ''vertex_format_4f'', fc_size = 16\<rparr>)]"

definition allocated_manager :: model_manager where
  "allocated_manager = snd (snd (allocate example_formats [] [] (init_model_manager 102400)))"

definition loaded_manager :: model_manager where
  "loaded_manager =
     snd (load_model example_formats ''vertex_format_4f'' 4 6 ''n'' False allocated_manager)"

definition registered_manager :: model_manager where
  "registered_manager =
     snd (register_entity_with_model 2 ''renderer'' ''n''
            (snd (register_entity_with_model 1 ''renderer'' ''n'' loaded_manager)))"

text \<open>
  A texture of 100 by 100 pixels; the atlas of one image \<^verbatim>\<open>sheet.png\<close> with the
  sub-image \<open>a\<close> at \<open>[10, 10, 20, 20]\<close>; the same atlas with the width of \<open>a\<close> given
  as the string \<open>"20"\<close>; one whose sub-image starts at the int \<open>10 ^ 309\<close>, beyond the
  range of a double; and the texture managers after loading the first atlas, and after
  loading a texture named \<open>a\<close>.
\<close>

definition example_texture :: texture where
  "example_texture = \<lparr>tex_source = ''sheet.png'', tex_size = (100, 100)\<rparr>"

definition example_atlas :: "(string \<times> texture \<times> (string \<times> pyval list) list) list" where
  "example_atlas =
     [(''sheet.png'', example_texture, [(''a'', [PyInt 10, PyInt 10, PyInt 20, PyInt 20])])]"


definition huge :: int where
  "huge = 10 ^ 309"

definition huge_atlas :: "(string \<times> texture \<times> (string \<times> pyval list) list) list" where
  "huge_atlas =
     [(''sheet.png'', example_texture, [(''a'', [PyInt huge, PyInt 0, PyInt 1, PyInt 1])])]"

definition atlas_loaded :: texture_manager where
  "atlas_loaded = snd (load_atlas example_atlas init_texture_manager)"

definition texture_a_loaded :: texture_manager where
  "texture_a_loaded = snd (load_texture ''a'' example_texture init_texture_manager)"


section \<open>Properties of the ModelManager\<close>

subsection \<open>Evaluation of the concrete managers\<close>

lemma str_int_0: "str_int 0 = ''0''"
  by (simp add: str_int_def str_nat.simps digit_char_def)

lemma allocated_manager_eq:
  "allocated_manager = \<lparr>allocation_size = 102400,
      memory_blocks = [''vertex_format_4f'' \<mapsto>
         \<lparr>bp_indices_block = MemoryBlock 51200 1 1, bp_vertices_block = MemoryBlock 51200 1 1\<rparr>],
      models = Map.empty, key_counts = Map.empty, model_register = Map.empty\<rparr>"
  by (simp add: allocated_manager_def allocate_def default_formats_def example_formats_def
      init_model_manager_def Let_def)

lemma loaded_manager_eq:
  "loaded_manager = allocated_manager\<lparr>key_counts := [''n'' \<mapsto> 0],
      models := [''n'' \<mapsto> VertexModel 4 6 \<lparr>fc_name = ''vertex_format_4f'', fc_size = 16\<rparr>
         (MemoryBlock 51200 1 1) (MemoryBlock 51200 1 1) ''n'']\<rparr>"
  by (simp add: loaded_manager_def allocated_manager_eq load_model_def store_model_def
      example_formats_def Let_def)

lemma registered_manager_eq:
  "registered_manager =
     loaded_manager\<lparr>model_register := [''n'' \<mapsto> [1 \<mapsto> ''renderer'', 2 \<mapsto> ''renderer'']]\<rparr>"
  by (simp add: registered_manager_def register_entity_with_model_def loaded_manager_eq
      allocated_manager_eq)

subsection \<open>Stored models have counters\<close>

lemma store_model_cases:
  "store_model cfg F v i n s = (r, s') \<Longrightarrow>
     (r = Inl KeyError \<and> s' = s) \<or>
     (r = Inr n \<and> (\<exists>m. s' = s\<lparr>models := (models s)(n \<mapsto> m)\<rparr>))"
  by (auto simp: store_model_def Let_def split: option.splits)

lemma names_consistent_overwrite:
  "names_consistent s \<Longrightarrow> models s n \<noteq> None \<Longrightarrow>
     names_consistent (s\<lparr>models := (models s)(n \<mapsto> m)\<rparr>)"
  by (simp add: names_consistent_def)

lemma names_consistent_init: "names_consistent (init_model_manager a)"
  by (simp add: names_consistent_def init_model_manager_def)

lemma names_consistent_load_model:
  assumes "names_consistent s" and "load_model fmts F v i n c s = (r, s')"
  shows "names_consistent s'"
  using assms
  by (auto simp: load_model_def names_consistent_def Let_def
      split: option.splits if_splits dest!: store_model_cases)

lemma names_consistent_unload_model:
  assumes "names_consistent s" and "unload_model n s = (r, s')"
  shows "names_consistent s'"
  using assms
  by (auto simp: unload_model_def names_consistent_def split: option.splits if_splits)

lemma names_consistent_copy_model:
  assumes "names_consistent s" and "copy_model fmts src tgt s = (r, s')"
  shows "names_consistent s'"
proof -
  obtain r1 s1 where l: "load_model fmts (fc_name (vm_format_config (the (models s src))))
      (vm_vertex_count (the (models s src))) (vm_index_count (the (models s src)))
      (case tgt of None \<Rightarrow> src | Some n \<Rightarrow> n) True s = (r1, s1)"
    by (cases "load_model fmts (fc_name (vm_format_config (the (models s src))))
      (vm_vertex_count (the (models s src))) (vm_index_count (the (models s src)))
      (case tgt of None \<Rightarrow> src | Some n \<Rightarrow> n) True s") blast
  have c1: "names_consistent s1" using names_consistent_load_model[OF assms(1) l] .
  show ?thesis
    using assms(2) l c1 assms(1)
    by (auto simp: copy_model_def Let_def names_consistent_overwrite
        split: option.splits sum.splits)
qed

lemma names_consistent_textured_rectangle:
  assumes "names_consistent s"
    and "load_textured_rectangle fmts tm F w h t n c s = (r, s')"
  shows "names_consistent s'"
proof -
  obtain r1 s1 where l: "load_model fmts F 4 6 n c s = (r1, s1)"
    by (cases "load_model fmts F 4 6 n c s") blast
  have c1: "names_consistent s1" using names_consistent_load_model[OF assms(1) l] .
  show ?thesis
    using assms(2) l c1 assms(1)
    by (auto simp: load_textured_rectangle_def Let_def names_consistent_overwrite
        split: option.splits sum.splits)
qed

lemma names_consistent_register:
  "names_consistent s \<Longrightarrow> register_entity_with_model e sys m s = (r, s') \<Longrightarrow>
     names_consistent s'"
  by (auto simp: register_entity_with_model_def names_consistent_def split: option.splits)

lemma names_consistent_unregister:
  "names_consistent s \<Longrightarrow> unregister_entity_with_model e m s = (r, s') \<Longrightarrow>
     names_consistent s'"
  by (auto simp: unregister_entity_with_model_def names_consistent_def split: option.splits)

lemma allocate_formats_names:
  "allocate_formats fmts fta tc buf s = (r, buf', s') \<Longrightarrow>
     models s' = models s \<and> key_counts s' = key_counts s"
proof (induction fmts fta tc buf s rule: allocate_formats.induct)
  case (1 vertex_formats total_count master_buffer s)
  then show ?case by simp
next
  case (2 vertex_formats format vertex_size index_size rest total_count master_buffer s)
  show ?case
  proof (cases "map_of vertex_formats format")
    case None
    with 2(2) show ?thesis by simp
  next
    case (Some cfg)
    let ?s1 = "s\<lparr>memory_blocks := (memory_blocks s)(format \<mapsto>
                 \<lparr>bp_indices_block = MemoryBlock (allocation_size s div 2) 1 1,
                  bp_vertices_block = MemoryBlock (allocation_size s div 2) 1 1\<rparr>)\<rparr>"
    let ?t = "int (unat total_count) + (vertex_size + index_size)"
    show ?thesis
    proof (cases "?t < 0 \<or> 2 ^ 32 \<le> ?t \<or> fc_size cfg = 0")
      case True
      with 2(2) Some have "s' = ?s1"
        by (auto simp: Let_def split: if_splits)
      then show ?thesis by simp
    next
      case False
      with 2(2) Some have run: "allocate_formats vertex_formats rest (word_of_int ?t)
          (allocate_memory_with_buffer (MemoryBlock (allocation_size s div 2) 1 1)
             (allocate_memory_with_buffer (MemoryBlock (allocation_size s div 2) 1 1)
                master_buffer)) ?s1 = (r, buf', s')"
        by (simp add: Let_def)
      from False have a: "\<not> (?t < 0 \<or> 2 ^ 32 \<le> ?t)" and b: "fc_size cfg \<noteq> 0" by auto
      have "models s' = models ?s1 \<and> key_counts s' = key_counts ?s1"
        by (rule 2(1)[OF Some refl refl refl refl refl refl a b run])
      then show ?thesis by simp
    qed
  qed
qed

lemma names_consistent_allocate:
  "names_consistent s \<Longrightarrow> allocate fmts buf fta s = (r, buf', s') \<Longrightarrow> names_consistent s'"
  by (auto simp: allocate_def names_consistent_def dest!: allocate_formats_names)

lemma names_consistent_loaded: "names_consistent loaded_manager"
  by (simp add: names_consistent_def loaded_manager_eq)

subsection \<open>Registration of entities\<close>

lemma registration_registered:
  "registration registered_manager ''n'' 1 = Some ''renderer'' \<and>
   registration registered_manager ''n'' 2 = Some ''renderer'' \<and>
   registration registered_manager ''n'' 3 = None"
  by (simp add: registration_def registered_manager_eq)

text \<open>
  Claim C9. \<^verbatim>\<open>unregister_entity_with_model(entity_id, model_name)\<close> raises KeyError
  and changes nothing when the pair is not registered (no bucket for the model name, or
  no entry for the entity in it). When the pair is registered the call returns, the
  pair is no longer registered afterwards, every other pair (another entity under the
  same model name, or any entity under another name) is registered exactly as before,
  and the other tables of the manager are untouched. So the call neither raises for nor
  removes a different entity id under the same model name.
\<close>

theorem unregister_entity_with_model_exact:
  "(registration s m e = None \<longrightarrow> unregister_entity_with_model e m s = (Inl KeyError, s)) \<and>
   (registration s m e \<noteq> None \<longrightarrow>
      (\<exists>s'. unregister_entity_with_model e m s = (Inr (), s') \<and>
            registration s' m e = None \<and>
            (\<forall>m' e'. (m', e') \<noteq> (m, e) \<longrightarrow> registration s' m' e' = registration s m' e') \<and>
            models s' = models s \<and> key_counts s' = key_counts s \<and>
            memory_blocks s' = memory_blocks s \<and> allocation_size s' = allocation_size s))"
  by (auto simp: registration_def unregister_entity_with_model_def split: option.splits)

theorem unregister_entity_with_model_exact_witness:
  "registration registered_manager ''n'' 1 \<noteq> None \<and>
   registration registered_manager ''n'' 3 = None \<and>
   fst (unregister_entity_with_model 1 ''n'' registered_manager) = Inr () \<and>
   registration (snd (unregister_entity_with_model 1 ''n'' registered_manager)) ''n'' 1 = None \<and>
   registration (snd (unregister_entity_with_model 1 ''n'' registered_manager)) ''n'' 2 =
     Some ''renderer'' \<and>
   unregister_entity_with_model 3 ''n'' registered_manager = (Inl KeyError, registered_manager)"
proof -
  have a: "registration registered_manager ''n'' 1 \<noteq> None"
    and b: "registration registered_manager ''n'' 3 = None"
    and c: "registration registered_manager ''n'' 2 = Some ''renderer''"
    using registration_registered by simp_all
  from unregister_entity_with_model_exact [of registered_manager "''n''" 1] a
  obtain s' where s': "unregister_entity_with_model 1 ''n'' registered_manager = (Inr (), s')"
      "registration s' ''n'' 1 = None"
      "\<forall>m' e'. (m', e') \<noteq> (''n'', 1) \<longrightarrow>
         registration s' m' e' = registration registered_manager m' e'"
    by blast
  from s'(3) have "registration s' ''n'' 2 = registration registered_manager ''n'' 2"
    by simp
  with c s'(1,2) a b unregister_entity_with_model_exact [of registered_manager "''n''" 3]
  show ?thesis by simp
qed

subsection \<open>Loading a name again without copying\<close>

text \<open>
  Claim C5. Let the format of the call be in the format registry. If
  \<^verbatim>\<open>load_model(F, v, i, n)\<close> with \<^verbatim>\<open>do_copy=False\<close> returns, it returns \<open>n\<close>, and a
  further call with the name \<open>n\<close> and \<^verbatim>\<open>do_copy=False\<close> (any registered format, any
  counts) returns \<open>n\<close> again and leaves the whole manager, so in particular the models
  table, unchanged. The same holds in every state in which \<open>n\<close> holds a model and stored
  models have counters, which are the states the manager can be in when \<open>n\<close> has been
  loaded.
\<close>

theorem load_model_shared:
  assumes "map_of fmts F' = Some cfg"
  shows "(load_model fmts F v i n False s = (Inr r, s1) \<longrightarrow>
            r = n \<and> load_model fmts F' v' i' n False s1 = (Inr n, s1)) \<and>
         (names_consistent s \<and> models s n \<noteq> None \<longrightarrow>
            load_model fmts F' v' i' n False s = (Inr n, s))"
  using assms
  by (auto simp: load_model_def names_consistent_def Let_def
      split: option.splits if_splits dest!: store_model_cases)

theorem load_model_shared_witness:
  "map_of example_formats ''vertex_format_4f'' = Some \<lparr>fc_name = ''vertex_format_4f'', fc_size = 16\<rparr> \<and>
   load_model example_formats ''vertex_format_4f'' 4 6 ''n'' False allocated_manager =
     (Inr ''n'', loaded_manager) \<and>
   load_model example_formats ''vertex_format_4f'' 8 12 ''n'' False loaded_manager =
     (Inr ''n'', loaded_manager) \<and>
   names_consistent loaded_manager \<and> models loaded_manager ''n'' \<noteq> None"
proof -
  have f: "map_of example_formats ''vertex_format_4f'' =
             Some \<lparr>fc_name = ''vertex_format_4f'', fc_size = 16\<rparr>"
    by (simp add: example_formats_def)
  have first: "load_model example_formats ''vertex_format_4f'' 4 6 ''n'' False allocated_manager =
                 (Inr ''n'', loaded_manager)"
    by (simp add: loaded_manager_eq allocated_manager_eq load_model_def store_model_def
        example_formats_def Let_def)
  have m: "models loaded_manager ''n'' \<noteq> None"
    by (simp add: loaded_manager_eq)
  from load_model_shared [OF f, where F = "''vertex_format_4f''" and v = 4 and i = 6
      and n = "''n''" and s = allocated_manager and r = "''n''" and ?s1.0 = loaded_manager
      and v' = 8 and i' = 12]
    first names_consistent_loaded m f
  show ?thesis by simp
qed

subsection \<open>Loading a name again with copying\<close>

text \<open>
  Claim C1, at a concrete input. On a manager that has just been allocated, the first
  \<^verbatim>\<open>load_model('vertex_format_4f', 4, 6, 'n', do_copy=True)\<close> stores the model under
  \<open>n\<close> itself and returns \<open>n\<close>; the second call derives the name \<open>n_0\<close> and then
  raises KeyError at \<^verbatim>\<open>self._key_counts[name] += 1\<close>, because \<^verbatim>\<open>name\<close> has been
  rebound to \<open>n_0\<close>, which has no counter. Nothing is stored and the counter of \<open>n\<close>
  stays 0. The docstring of \<^verbatim>\<open>load_model\<close> promises \<open>n_0\<close>, then \<open>n_1\<close>.
\<close>

theorem load_model_copy_raises:
  "load_model example_formats ''vertex_format_4f'' 4 6 ''n'' True allocated_manager =
     (Inr ''n'', loaded_manager) \<and>
   load_model example_formats ''vertex_format_4f'' 4 6 ''n'' True loaded_manager =
     (Inl KeyError, loaded_manager)"
  by (simp add: loaded_manager_eq allocated_manager_eq load_model_def store_model_def
      example_formats_def Let_def str_int_0)

text \<open>
  In no state at all do two successive copying loads of \<open>n\<close> return \<open>n_0\<close> and then
  \<open>n_1\<close>: the branch that derives a name never advances the counter of \<open>n\<close>.
\<close>

lemma load_model_copy_never_n0_n1:
  "\<not> (load_model fmts F v i n True s = (Inr (n @ ''_0''), s1) \<and>
      load_model fmts F v i n True s1 = (Inr (n @ ''_1''), s2))"
proof
  assume a: "load_model fmts F v i n True s = (Inr (n @ ''_0''), s1) \<and>
      load_model fmts F v i n True s1 = (Inr (n @ ''_1''), s2)"
  then obtain c where c: "key_counts s n = Some c" and n0: "n @ ''_'' @ str_int c = n @ ''_0''"
    and k1: "key_counts s1 n = Some c"
    by (auto simp: load_model_def Let_def split: option.splits if_splits dest!: store_model_cases)
  from a k1 have "n @ ''_'' @ str_int c = n @ ''_1''"
    by (auto simp: load_model_def Let_def split: option.splits if_splits dest!: store_model_cases)
  with n0 show False by simp
qed

text \<open>
  Claim C6, at a concrete input. \<^verbatim>\<open>copy_model('n')\<close> on a manager in which \<open>n\<close> is
  loaded calls \<^verbatim>\<open>load_model\<close> with \<^verbatim>\<open>do_copy=True\<close> and raises KeyError for the
  reason given under C1: no copy is made and the manager is unchanged.
\<close>

theorem copy_model_raises:
  "models loaded_manager ''n'' \<noteq> None \<and>
   copy_model example_formats ''n'' None loaded_manager = (Inl KeyError, loaded_manager)"
  by (simp add: copy_model_def loaded_manager_eq allocated_manager_eq load_model_def store_model_def
      example_formats_def Let_def str_int_0 VertexModel_def)

subsection \<open>Reserving the pools\<close>

text \<open>
  Claim C2, at a concrete input. With an allocation size of 100 KiB and the request
  \<^verbatim>\<open>{'vertex_format_4f': (1000, 500)}\<close>, \<^verbatim>\<open>allocate\<close> returns 1500 while it reserves
  two blocks of 51200 bytes each from the buffer: both blocks are built with
  \<^verbatim>\<open>self.allocation_size//2\<close>, whatever the request. With the empty request the
  blocks are 51200 and 51200 bytes as well, not 76800 and 25600, and the manager ends up
  in the very same state.
\<close>

theorem allocate_ignores_requested_sizes:
  "allocate example_formats [] [(''vertex_format_4f'', 1000, 500)] (init_model_manager 102400) =
     (Inr 1500, [51200, 51200], allocated_manager) \<and>
   allocate example_formats [] [] (init_model_manager 102400) =
     (Inr 102400, [51200, 51200], allocated_manager)"
  apply (simp add: allocate_def example_formats_def init_model_manager_def default_formats_def)
  apply (simp add: Let_def allocate_memory_with_buffer_def MemoryBlock_def allocated_manager_eq)
  done

subsection \<open>The textured rectangle and an unknown texture\<close>

text \<open>
  Claim C10. Let the format be registered and allocated, let \<open>name\<close> be a name the
  manager has not seen, and let the texture name be unknown to the texture manager. Then
  \<^verbatim>\<open>load_textured_rectangle\<close> raises KeyError, and the state it leaves behind differs
  from the one it started in: the counter of \<open>name\<close> is 0 and a model of 4 vertices and
  6 indices, with contents never written, is stored under \<open>name\<close>.
\<close>

theorem load_textured_rectangle_not_atomic:
  assumes "map_of fmts F = Some cfg" and "memory_blocks s F = Some blocks"
    and "key_counts s name = None" and "keys tm texture_key = None"
  shows "load_textured_rectangle fmts tm F width height texture_key name do_copy s =
           (Inl KeyError,
            s\<lparr>key_counts := (key_counts s)(name \<mapsto> 0),
              models := (models s)(name \<mapsto>
                VertexModel 4 6 cfg (bp_indices_block blocks) (bp_vertices_block blocks) name)\<rparr>)"
  using assms
  by (simp add: load_textured_rectangle_def load_model_def store_model_def Let_def
      get_texkey_from_name_def lookup_def)

theorem load_textured_rectangle_not_atomic_witness:
  "fst (load_textured_rectangle example_formats init_texture_manager ''vertex_format_4f''
          (Nearest 64) (Nearest 64) ''missing'' ''quad'' False allocated_manager) = Inl KeyError \<and>
   models allocated_manager ''quad'' = None \<and>
   key_counts allocated_manager ''quad'' = None \<and>
   key_counts (snd (load_textured_rectangle example_formats init_texture_manager
          ''vertex_format_4f'' (Nearest 64) (Nearest 64) ''missing'' ''quad'' False allocated_manager)) ''quad'' = Some 0 \<and>
   map_option vm_contents (models (snd (load_textured_rectangle example_formats
          init_texture_manager ''vertex_format_4f'' (Nearest 64) (Nearest 64) ''missing'' ''quad'' False
          allocated_manager)) ''quad'') = Some Uninitialised"
proof -
  have f: "map_of example_formats ''vertex_format_4f'' =
             Some \<lparr>fc_name = ''vertex_format_4f'', fc_size = 16\<rparr>"
    by (simp add: example_formats_def)
  have b: "memory_blocks allocated_manager ''vertex_format_4f'' =
             Some \<lparr>bp_indices_block = MemoryBlock 51200 1 1,
                   bp_vertices_block = MemoryBlock 51200 1 1\<rparr>"
    by (simp add: allocated_manager_eq)
  have k: "key_counts allocated_manager ''quad'' = None"
    and m: "models allocated_manager ''quad'' = None"
    by (simp_all add: allocated_manager_eq)
  have t: "keys init_texture_manager ''missing'' = None"
    by (simp add: init_texture_manager_def)
  show ?thesis
    using load_textured_rectangle_not_atomic [OF f b k t, of "Nearest 64" "Nearest 64" False] k m
    by (simp add: VertexModel_def)
qed

section \<open>Properties of the TextureManager\<close>

subsection \<open>Evaluation of the concrete texture managers\<close>

lemma small_fits: "\<bar>i\<bar> \<le> 1000 \<Longrightarrow> \<not> double_overflows i"
proof -
  assume "\<bar>i\<bar> \<le> 1000"
  moreover have "(2::int) ^ 970 \<le> 2 ^ 1024 - 2 ^ 970 \<and> (1000::int) < 2 ^ 10 \<and> (2::int) ^ 10 \<le> 2 ^ 970"
    by simp
  ultimately show ?thesis by (simp add: double_overflows_def)
qed

lemma atlas_uvs_example:
  "atlas_uvs (PyInt 10) (PyInt 10) (PyInt 20) (PyInt 20) 100 100 =
     Inr (int_rectangle_uvs 10 10 20 20 100 100)"
  by (simp add: atlas_uvs_def int_rectangle_uvs_def small_fits)

lemma huge_overflows: "double_overflows huge"
  by (simp add: double_overflows_def huge_def)

lemma atlas_uvs_huge:
  "atlas_uvs (PyInt huge) (PyInt 0) (PyInt 1) (PyInt 1) 100 100 = Inl OverflowError"
  using huge_overflows by (simp add: atlas_uvs_def)


lemma basename_sheet: "basename ''sheet.png'' = ''sheet.png''"
  by (simp add: basename_def)

lemma atlas_loaded_run:
  "load_atlas example_atlas init_texture_manager = (Inr (), atlas_loaded) \<and>
   atlas_loaded =
     \<lparr>textures = [0 \<mapsto> example_texture],
      keys = [''sheet.png'' \<mapsto> 0, ''a'' \<mapsto> 1],
      key_index = [0 \<mapsto> ''sheet.png'', 1 \<mapsto> ''a''],
      texkey_index = [0 \<mapsto> 0, 1 \<mapsto> 0],
      key_count = 2,
      sizes = [0 \<mapsto> (PyInt 100, PyInt 100), 1 \<mapsto> (PyInt 20, PyInt 20)],
      uvs = [0 \<mapsto> [Nearest 0, Nearest 0, Nearest 1, Nearest 1], 1 \<mapsto> int_rectangle_uvs 10 10 20 20 100 100],
      groups = [0 \<mapsto> [0, 1]]\<rparr>"
  by (simp add: atlas_loaded_def example_atlas_def init_texture_manager_def load_texture_def
      load_atlas_entry_def atlas_uvs_example basename_sheet size_pair_def example_texture_def
      small_fits
      Let_def)

lemma atlas_loaded_record:
  "atlas_loaded =
     \<lparr>textures = [0 \<mapsto> example_texture],
      keys = [''sheet.png'' \<mapsto> 0, ''a'' \<mapsto> 1],
      key_index = [0 \<mapsto> ''sheet.png'', 1 \<mapsto> ''a''],
      texkey_index = [0 \<mapsto> 0, 1 \<mapsto> 0],
      key_count = 2,
      sizes = [0 \<mapsto> (PyInt 100, PyInt 100), 1 \<mapsto> (PyInt 20, PyInt 20)],
      uvs = [0 \<mapsto> [Nearest 0, Nearest 0, Nearest 1, Nearest 1], 1 \<mapsto> int_rectangle_uvs 10 10 20 20 100 100],
      groups = [0 \<mapsto> [0, 1]]\<rparr>"
  using atlas_loaded_run by simp

lemma texture_a_loaded_eq:
  "texture_a_loaded =
     \<lparr>textures = [0 \<mapsto> example_texture],
      keys = [''a'' \<mapsto> 0],
      key_index = [0 \<mapsto> ''a''],
      texkey_index = [0 \<mapsto> 0],
      key_count = 1,
      sizes = [0 \<mapsto> (PyInt 100, PyInt 100)],
      uvs = [0 \<mapsto> [Nearest 0, Nearest 0, Nearest 1, Nearest 1]],
      groups = [0 \<mapsto> [0]]\<rparr>"
  by (simp add: texture_a_loaded_def init_texture_manager_def load_texture_def
      size_pair_def example_texture_def Let_def)

lemma atlas_loaded_group: "group_consistent atlas_loaded 0 [0, 1]"
  by (simp add: group_consistent_def members_complete_def atlas_loaded_record example_texture_def)

lemma atlas_loaded_names: "''a'' \<in> member_names atlas_loaded [0, 1]"
  by (simp add: member_names_def atlas_loaded_record)




subsection \<open>Unloading a group\<close>

lemma unload_key_returns:
  assumes "key_index s k = Some name" and "keys s name \<noteq> None" and "uvs s k \<noteq> None"
    and "texkey_index s k \<noteq> None" and "sizes s k \<noteq> None"
  shows "unload_key k s =
           (Inr (), s\<lparr>key_index := (key_index s)(k := None), uvs := (uvs s)(k := None),
                      texkey_index := (texkey_index s)(k := None),
                      keys := (keys s)(name := None), sizes := (sizes s)(k := None)\<rparr>)"
  using assms by (simp add: unload_key_def Let_def)

lemma unload_keys_returns:
  "distinct ks \<Longrightarrow> members_complete s ks \<Longrightarrow> unload_keys ks s = (Inr (), without_keys s ks)"
proof (induction ks arbitrary: s)
  case Nil
  show ?case by (simp add: without_keys_def member_names_def)
next
  case (Cons k rest)
  from Cons.prems(2) obtain name where name: "key_index s k = Some name" "keys s name = Some k"
    and here: "uvs s k \<noteq> None" "texkey_index s k \<noteq> None" "sizes s k \<noteq> None"
    by (auto simp: members_complete_def)
  let ?s1 = "s\<lparr>key_index := (key_index s)(k := None), uvs := (uvs s)(k := None),
                texkey_index := (texkey_index s)(k := None),
                keys := (keys s)(name := None), sizes := (sizes s)(k := None)\<rparr>"
  have step: "unload_key k s = (Inr (), ?s1)"
    using unload_key_returns[OF name(1) _ here] name(2) by simp
  from Cons.prems have notin: "k \<notin> set rest" and d: "distinct rest" by simp_all
  have other: "name' \<noteq> name"
    if "k' \<in> set rest" "key_index s k' = Some name'" "keys s name' = Some k'" for k' name'
    using that name(2) notin by auto
  have complete: "members_complete ?s1 rest"
    unfolding members_complete_def
  proof
    fix k' assume k': "k' \<in> set rest"
    with Cons.prems(2) obtain name' where n': "key_index s k' = Some name'" "keys s name' = Some k'"
      and h': "uvs s k' \<noteq> None" "texkey_index s k' \<noteq> None" "sizes s k' \<noteq> None"
      by (auto simp: members_complete_def)
    from k' notin have ne: "k' \<noteq> k" by auto
    from other[OF k' n'] have "name' \<noteq> name" .
    with ne n' h' show "uvs ?s1 k' \<noteq> None \<and> texkey_index ?s1 k' \<noteq> None \<and>
        sizes ?s1 k' \<noteq> None \<and> (\<exists>name. key_index ?s1 k' = Some name \<and> keys ?s1 name = Some k')"
      by simp
  qed
  have names: "member_names ?s1 rest = member_names s rest"
    using notin by (auto simp: member_names_def)
  have names': "member_names s (k # rest) = insert name (member_names s rest)"
    using name(1) by (auto simp: member_names_def)
  have "without_keys ?s1 rest = without_keys s (k # rest)"
    unfolding without_keys_def names names'
    by (simp add: fun_eq_iff)
  with Cons.IH[OF d complete] step show ?case by simp
qed

text \<open>A texture that has just been loaded is a consistent group of its own.\<close>

lemma load_texture_group_consistent:
  "load_texture name texture s = (Inr k, s') \<Longrightarrow> group_consistent s' k [k]"
  by (auto simp: load_texture_def group_consistent_def members_complete_def Let_def
      split: option.splits)

text \<open>
  Claim C3, as the code has it. \<^verbatim>\<open>unload_texture(name)\<close> raises KeyError and changes
  nothing when \<open>name\<close> is not registered, and also when \<open>name\<close> is registered under a
  texkey that is not a group key, as the name of a sub-image of an atlas is. When the texkey \<open>g\<close> of \<open>name\<close> is a group key
  with a consistent group \<open>ks\<close> (the name of a texture loaded by \<^verbatim>\<open>load_image\<close> or
  \<^verbatim>\<open>load_texture\<close>, or of the parent image of an atlas), the call returns, and
  afterwards exactly the members of the group are gone from the key-to-name map, the UV
  map, the group-owner map and the size map, exactly their names are gone from the
  name-to-key map, so that \<^verbatim>\<open>get_texkey_from_name\<close> raises KeyError on each of them,
  the group entry and the texture of \<open>g\<close> are gone, and the counter is unchanged.
\<close>

theorem unload_texture_group:
  "(keys s name = None \<longrightarrow> unload_texture name s = (Inl KeyError, s)) \<and>
   (keys s name = Some g \<and> groups s g = None \<longrightarrow>
      unload_texture name s = (Inl KeyError, s)) \<and>
   (keys s name = Some g \<and> group_consistent s g ks \<longrightarrow>
      (\<exists>s'. unload_texture name s = (Inr (), s') \<and>
         (\<forall>k. key_index s' k = (if k \<in> set ks then None else key_index s k)) \<and>
         (\<forall>k. uvs s' k = (if k \<in> set ks then None else uvs s k)) \<and>
         (\<forall>k. texkey_index s' k = (if k \<in> set ks then None else texkey_index s k)) \<and>
         (\<forall>k. sizes s' k = (if k \<in> set ks then None else sizes s k)) \<and>
         (\<forall>n. keys s' n = (if n \<in> member_names s ks then None else keys s n)) \<and>
         (\<forall>n. n \<in> member_names s ks \<longrightarrow> get_texkey_from_name n s' = Inl KeyError) \<and>
         groups s' = (groups s)(g := None) \<and> textures s' = (textures s)(g := None) \<and>
         key_count s' = key_count s))"
proof (intro conjI impI)
  assume "keys s name = None"
  then show "unload_texture name s = (Inl KeyError, s)"
    by (simp add: unload_texture_def)
next
  assume "keys s name = Some g \<and> groups s g = None"
  then show "unload_texture name s = (Inl KeyError, s)"
    by (simp add: unload_texture_def)
next
  assume a: "keys s name = Some g \<and> group_consistent s g ks"
  then have g: "groups s g = Some ks" and d: "distinct ks" and t: "textures s g \<noteq> None"
    and c: "members_complete s ks"
    by (simp_all add: group_consistent_def members_complete_def)
  have loop: "unload_keys ks s = (Inr (), without_keys s ks)"
    by (rule unload_keys_returns[OF d c])
  let ?s' = "(without_keys s ks)\<lparr>groups := (groups s)(g := None),
                                   textures := (textures s)(g := None)\<rparr>"
  have "unload_texture name s = (Inr (), ?s')"
    using a g t loop by (simp add: unload_texture_def without_keys_def Let_def)
  moreover have "\<forall>k. key_index ?s' k = (if k \<in> set ks then None else key_index s k)"
    and "\<forall>k. uvs ?s' k = (if k \<in> set ks then None else uvs s k)"
    and "\<forall>k. texkey_index ?s' k = (if k \<in> set ks then None else texkey_index s k)"
    and "\<forall>k. sizes ?s' k = (if k \<in> set ks then None else sizes s k)"
    and "\<forall>n. keys ?s' n = (if n \<in> member_names s ks then None else keys s n)"
    and "\<forall>n. n \<in> member_names s ks \<longrightarrow> get_texkey_from_name n ?s' = Inl KeyError"
    and "groups ?s' = (groups s)(g := None)" and "textures ?s' = (textures s)(g := None)"
    and "key_count ?s' = key_count s"
    by (simp_all add: without_keys_def get_texkey_from_name_def lookup_def)
  ultimately show "\<exists>s'. unload_texture name s = (Inr (), s') \<and>
         (\<forall>k. key_index s' k = (if k \<in> set ks then None else key_index s k)) \<and>
         (\<forall>k. uvs s' k = (if k \<in> set ks then None else uvs s k)) \<and>
         (\<forall>k. texkey_index s' k = (if k \<in> set ks then None else texkey_index s k)) \<and>
         (\<forall>k. sizes s' k = (if k \<in> set ks then None else sizes s k)) \<and>
         (\<forall>n. keys s' n = (if n \<in> member_names s ks then None else keys s n)) \<and>
         (\<forall>n. n \<in> member_names s ks \<longrightarrow> get_texkey_from_name n s' = Inl KeyError) \<and>
         groups s' = (groups s)(g := None) \<and> textures s' = (textures s)(g := None) \<and>
         key_count s' = key_count s"
    by blast
qed

theorem unload_texture_group_witness:
  "keys atlas_loaded ''missing'' = None \<and>
   unload_texture ''missing'' atlas_loaded = (Inl KeyError, atlas_loaded) \<and>
   keys atlas_loaded ''a'' = Some 1 \<and> groups atlas_loaded 1 = None \<and>
   fst (unload_texture ''a'' atlas_loaded) = Inl KeyError \<and>
   keys atlas_loaded ''sheet.png'' = Some 0 \<and>
   group_consistent atlas_loaded 0 [0, 1] \<and>
   get_texkey_from_name ''a'' atlas_loaded = Inr 1 \<and>
   fst (unload_texture ''sheet.png'' atlas_loaded) = Inr () \<and>
   get_texkey_from_name ''a'' (snd (unload_texture ''sheet.png'' atlas_loaded)) = Inl KeyError \<and>
   groups (snd (unload_texture ''sheet.png'' atlas_loaded)) 0 = None"
proof -
  have m: "keys atlas_loaded ''missing'' = None"
    and k: "keys atlas_loaded ''sheet.png'' = Some 0"
    and a: "get_texkey_from_name ''a'' atlas_loaded = Inr 1"
    by (simp_all add: atlas_loaded_record get_texkey_from_name_def lookup_def)
  from unload_texture_group [of atlas_loaded "''missing''"] m
  have miss: "unload_texture ''missing'' atlas_loaded = (Inl KeyError, atlas_loaded)"
    by blast
  have sub: "keys atlas_loaded ''a'' = Some 1" "groups atlas_loaded 1 = None"
    by (simp_all add: atlas_loaded_record)
  with unload_texture_group [of atlas_loaded "''a''" 1]
  have part: "fst (unload_texture ''a'' atlas_loaded) = Inl KeyError"
    by simp
  from unload_texture_group [of atlas_loaded "''sheet.png''" 0 "[0, 1]"] k atlas_loaded_group
  obtain s' where s': "unload_texture ''sheet.png'' atlas_loaded = (Inr (), s')"
    "\<forall>n. n \<in> member_names atlas_loaded [0, 1] \<longrightarrow> get_texkey_from_name n s' = Inl KeyError"
    "groups s' = (groups atlas_loaded)(0 := None)"
    by blast
  from s'(2) atlas_loaded_names have "get_texkey_from_name ''a'' s' = Inl KeyError" by blast
  with s'(1,3) m k a miss sub part atlas_loaded_group show ?thesis by simp
qed

text \<open>
  Claim C3, as stated, at a concrete input. After \<^verbatim>\<open>load_atlas\<close> of one image
  \<^verbatim>\<open>sheet.png\<close> with the sub-image \<open>a\<close>, the name \<open>a\<close> is registered under texkey 1,
  a member of the group of key 0. \<^verbatim>\<open>unload_texture('a')\<close> looks for a group under
  key 1, finds none, raises KeyError and removes nothing.
\<close>

theorem unload_texture_sub_texture_raises:
  "get_texkey_from_name ''a'' atlas_loaded = Inr 1 \<and>
   get_groupkey_from_texkey 1 atlas_loaded = Inr 0 \<and>
   get_texkey_in_group 1 0 atlas_loaded = Inr True \<and>
   unload_texture ''a'' atlas_loaded = (Inl KeyError, atlas_loaded)"
  by (simp add: atlas_loaded_record unload_texture_def get_texkey_from_name_def
      get_groupkey_from_texkey_def get_texkey_in_group_def lookup_def)

subsection \<open>The records of a sub-image\<close>

lemma atlas_uvs_ints:
  "atlas_uvs (PyInt x) (PyInt y) (PyInt kw) (PyInt kh) W H = Inr uv \<Longrightarrow>
     W \<noteq> 0 \<and> H \<noteq> 0 \<and> uv = int_rectangle_uvs x y kw kh W H"
  by (auto simp: atlas_uvs_def int_rectangle_uvs_def split: if_splits)

lemma agree_below_refl: "agree_below b s s"
  by (simp add: agree_below_def)

lemma agree_below_trans:
  "agree_below b s s1 \<Longrightarrow> agree_below b' s1 s2 \<Longrightarrow> b \<le> b' \<Longrightarrow> agree_below b s s2"
  by (simp add: agree_below_def)

lemma load_atlas_entry_agree:
  "load_atlas_entry ak w h gl key rect s = (r, s') \<Longrightarrow>
     agree_below (key_count s) s s' \<and> key_count s \<le> key_count s'"
  by (auto simp: load_atlas_entry_def agree_below_def Let_def split: if_splits sum.splits)

lemma load_atlas_entry_ints:
  assumes "load_atlas_entry ak W H gl key [PyInt x, PyInt y, PyInt kw, PyInt kh] s = (Inr gl', s')"
  shows "W \<noteq> 0 \<and> H \<noteq> 0 \<and> key_count s' = key_count s + 1 \<and>
         key_index s' (key_count s) = Some key \<and> texkey_index s' (key_count s) = Some ak \<and>
         sizes s' (key_count s) = Some (PyInt kw, PyInt kh) \<and>
         uvs s' (key_count s) = Some (int_rectangle_uvs x y kw kh W H)"
proof (cases "atlas_uvs (PyInt x) (PyInt y) (PyInt kw) (PyInt kh) W H")
  case (Inl e)
  with assms show ?thesis by (simp add: load_atlas_entry_def Let_def)
next
  case (Inr uv)
  from atlas_uvs_ints[OF Inr] Inr assms show ?thesis
    by (auto simp: load_atlas_entry_def Let_def)
qed

lemma load_atlas_content_agree:
  "load_atlas_content ak w h gl content s = (r, s') \<Longrightarrow>
     agree_below (key_count s) s s' \<and> key_count s \<le> key_count s'"
proof (induction content arbitrary: gl s)
  case Nil
  then show ?case by (simp add: agree_below_refl)
next
  case (Cons entry rest)
  obtain key rect where entry: "entry = (key, rect)" by (cases entry)
  obtain r1 s1 where e: "load_atlas_entry ak w h gl key rect s = (r1, s1)"
    by (cases "load_atlas_entry ak w h gl key rect s")
  note a1 = load_atlas_entry_agree[OF e]
  show ?case
  proof (cases r1)
    case (Inl err)
    with Cons.prems entry e have "s' = s1" by simp
    with a1 show ?thesis by simp
  next
    case (Inr gl1)
    with Cons.prems entry e have "load_atlas_content ak w h gl1 rest s1 = (r, s')" by simp
    from Cons.IH[OF this] a1 show ?thesis
      using agree_below_trans by fastforce
  qed
qed

lemma load_atlas_content_registers:
  assumes "load_atlas_content ak W H gl content s = (Inr (), s')"
    and "(sub, [PyInt x, PyInt y, PyInt kw, PyInt kh]) \<in> set content"
  shows "W \<noteq> 0 \<and> H \<noteq> 0 \<and>
         (\<exists>k. key_count s \<le> k \<and> k < key_count s' \<and>
            key_index s' k = Some sub \<and> texkey_index s' k = Some ak \<and>
            sizes s' k = Some (PyInt kw, PyInt kh) \<and>
            uvs s' k = Some (int_rectangle_uvs x y kw kh W H))"
  using assms
proof (induction content arbitrary: gl s)
  case Nil
  then show ?case by simp
next
  case (Cons entry rest)
  obtain key rect where entry: "entry = (key, rect)" by (cases entry)
  obtain r1 s1 where e: "load_atlas_entry ak W H gl key rect s = (r1, s1)"
    by (cases "load_atlas_entry ak W H gl key rect s")
  from Cons.prems(1) entry e obtain gl1 where r1: "r1 = Inr gl1"
    and rest: "load_atlas_content ak W H gl1 rest s1 = (Inr (), s')"
    by (cases r1) simp_all
  note a1 = load_atlas_entry_agree[OF e]
  note a2 = load_atlas_content_agree[OF rest]
  show ?case
  proof (cases "(sub, [PyInt x, PyInt y, PyInt kw, PyInt kh]) = entry")
    case True
    with entry e r1
    have "load_atlas_entry ak W H gl sub [PyInt x, PyInt y, PyInt kw, PyInt kh] s = (Inr gl1, s1)"
      by simp
    from load_atlas_entry_ints[OF this] a2
    show ?thesis
      by (auto simp: agree_below_def intro!: exI[of _ "key_count s"])
  next
    case False
    with Cons.prems(2) have "(sub, [PyInt x, PyInt y, PyInt kw, PyInt kh]) \<in> set rest" by auto
    from Cons.IH[OF rest this] obtain k where nz: "W \<noteq> 0" "H \<noteq> 0"
      and k: "key_count s1 \<le> k" "k < key_count s'" "key_index s' k = Some sub"
        "texkey_index s' k = Some ak" "sizes s' k = Some (PyInt kw, PyInt kh)"
        "uvs s' k = Some (int_rectangle_uvs x y kw kh W H)"
      by blast
    from a1 k(1) have "key_count s \<le> k" by simp
    with nz k show ?thesis by blast
  qed
qed

lemma load_texture_agree:
  "load_texture name texture s = (r, s') \<Longrightarrow>
     agree_below (key_count s) s s' \<and> key_count s \<le> key_count s'"
  by (auto simp: load_texture_def agree_below_def Let_def split: option.splits)

lemma load_texture_anchor:
  "load_texture name texture s = (Inr a, s') \<Longrightarrow>
     a = key_count s \<and> key_count s' = a + 1 \<and> textures s' a = Some texture \<and>
     key_index s' a = Some name \<and> groups s' a = Some [a]"
  by (auto simp: load_texture_def Let_def split: option.splits)

text \<open>
  What \<^verbatim>\<open>load_atlas\<close> does for one image whose size fits a double: the image is
  registered, then its sub-images.
\<close>

lemma load_atlas_image:
  assumes "\<not> (double_overflows (fst (tex_size texture)) \<or> double_overflows (snd (tex_size texture)))"
  shows "load_atlas ((imgname, texture, content) # rest) s =
           (case load_texture (basename imgname) texture s of
              (Inl e, s1) \<Rightarrow> (Inl e, s1)
            | (Inr a, s1) \<Rightarrow>
                (case groups s1 a of
                   None \<Rightarrow> (Inl KeyError, s1)
                 | Some gl \<Rightarrow>
                     (case load_atlas_content a (fst (tex_size texture))
                             (snd (tex_size texture)) gl content s1 of
                        (Inl e, s2) \<Rightarrow> (Inl e, s2)
                      | (Inr u, s2) \<Rightarrow> load_atlas rest s2)))"
  using assms by (simp add: Let_def)

lemma load_atlas_overflow:
  assumes "double_overflows (fst (tex_size texture)) \<or> double_overflows (snd (tex_size texture))"
  shows "load_atlas ((imgname, texture, content) # rest) s = (Inl OverflowError, s)"
  using assms by (simp add: Let_def)

lemma load_atlas_agree:
  "load_atlas atlas s = (r, s') \<Longrightarrow>
     agree_below (key_count s) s s' \<and> key_count s \<le> key_count s'"
proof (induction atlas arbitrary: s)
  case Nil
  then show ?case by (simp add: agree_below_refl)
next
  case (Cons image rest)
  obtain imgname texture content where image: "image = (imgname, texture, content)"
    by (cases image)
  show ?case
  proof (cases "double_overflows (fst (tex_size texture)) \<or>
                double_overflows (snd (tex_size texture))")
    case True
    from Cons.prems image load_atlas_overflow[OF True] have "s' = s" by simp
    then show ?thesis by (simp add: agree_below_refl)
  next
    case fits: False
    note step = load_atlas_image[OF fits, of imgname content rest s]
    obtain r1 s1 where t: "load_texture (basename imgname) texture s = (r1, s1)"
      by (cases "load_texture (basename imgname) texture s")
    note a1 = load_texture_agree[OF t]
    show ?thesis
    proof (cases r1)
      case (Inl err)
      with Cons.prems image t step have "s' = s1" by simp
      with a1 show ?thesis by simp
    next
      case (Inr a)
      with load_texture_anchor t obtain gl where gl: "groups s1 a = Some gl" by blast
      obtain r2 s2 where c: "load_atlas_content a (fst (tex_size texture))
          (snd (tex_size texture)) gl content s1 = (r2, s2)"
        by (cases "load_atlas_content a (fst (tex_size texture))
          (snd (tex_size texture)) gl content s1")
      note a2 = load_atlas_content_agree[OF c]
      from a1 a2 have a12: "agree_below (key_count s) s s2 \<and> key_count s \<le> key_count s2"
        using agree_below_trans by fastforce
      show ?thesis
      proof (cases r2)
        case (Inl err)
        with Cons.prems image t Inr gl c step have "s' = s2" by simp
        with a12 show ?thesis by simp
      next
        case r2: (Inr u)
        with Cons.prems image t Inr gl c step have "load_atlas rest s2 = (r, s')"
          by simp
        from Cons.IH[OF this] a12 show ?thesis
          using agree_below_trans by fastforce
      qed
    qed
  qed
qed

text \<open>
  The part of claim C4 that is not about the values of floats. Let \<^verbatim>\<open>load_atlas\<close>
  return, and let the description hold, for an image whose texture has the pixel size
  \<open>(W, H)\<close>, a sub-image \<open>sub\<close> with the rectangle \<open>[x, y, kw, kh]\<close> of ints. Then \<open>W\<close>
  and \<open>H\<close> are not zero, and some texkey \<open>k\<close> is registered for the name \<open>sub\<close> in the
  group of the texkey that holds that image, with \<^verbatim>\<open>get_size(k)\<close> equal to
  \<open>(kw, kh)\<close> and \<^verbatim>\<open>get_uvs(k)\<close> the list of the four doubles the source computes
  as \<^verbatim>\<open>[x1/w, 1.-y1/h, x2/w, 1.-y2/h]\<close>, with \<open>w\<close> and \<open>h\<close> the C floats made from
  \<open>W\<close> and \<open>H\<close>. What numbers these doubles are is not stated.
\<close>

lemma load_atlas_registers:
  assumes "load_atlas atlas s = (Inr (), s')"
    and "(imgname, texture, content) \<in> set atlas"
    and "(sub, [PyInt x, PyInt y, PyInt kw, PyInt kh]) \<in> set content"
    and "tex_size texture = (W, H)"
  shows "W \<noteq> 0 \<and> H \<noteq> 0 \<and>
         (\<exists>k a. get_texname_from_texkey k s' = Inr sub \<and>
            get_groupkey_from_texkey k s' = Inr a \<and>
            get_texture a s' = Inr texture \<and>
            get_texname_from_texkey a s' = Inr (basename imgname) \<and>
            get_size k s' = Inr (PyInt kw, PyInt kh) \<and>
            get_uvs k s' = Inr (int_rectangle_uvs x y kw kh W H))"
  using assms(1,2)
proof (induction atlas arbitrary: s)
  case Nil
  then show ?case by simp
next
  case (Cons image rest)
  obtain imgname' texture' content' where image: "image = (imgname', texture', content')"
    by (cases image)
  have fits: "\<not> (double_overflows (fst (tex_size texture')) \<or>
                 double_overflows (snd (tex_size texture')))"
  proof
    assume "double_overflows (fst (tex_size texture')) \<or>
            double_overflows (snd (tex_size texture'))"
    from load_atlas_overflow[OF this] Cons.prems(1) image show False by simp
  qed
  note step = load_atlas_image[OF fits, of imgname' content' rest s]
  obtain r1 s1 where t: "load_texture (basename imgname') texture' s = (r1, s1)"
    by (cases "load_texture (basename imgname') texture' s")
  from Cons.prems(1) image t step obtain a where r1: "r1 = Inr a"
    by (cases r1) simp_all
  note anchor = load_texture_anchor[OF t[unfolded r1]]
  then obtain gl where gl: "groups s1 a = Some gl" by blast
  obtain r2 s2 where c: "load_atlas_content a (fst (tex_size texture'))
      (snd (tex_size texture')) gl content' s1 = (r2, s2)"
    by (cases "load_atlas_content a (fst (tex_size texture'))
      (snd (tex_size texture')) gl content' s1")
  from Cons.prems(1) image t r1 gl c step have r2: "r2 = Inr ()"
    and rest: "load_atlas rest s2 = (Inr (), s')"
    by (cases r2; simp)+
  show ?case
  proof (cases "(imgname, texture, content) = image")
    case True
    with image have same: "imgname' = imgname" "texture' = texture" "content' = content"
      by simp_all
    from c r2 same assms(4)
    have c': "load_atlas_content a W H gl content s1 = (Inr (), s2)"
      by simp
    from load_atlas_content_registers[OF c' assms(3)]
    obtain k where nz: "W \<noteq> 0" "H \<noteq> 0"
      and k: "key_count s1 \<le> k" "k < key_count s2" "key_index s2 k = Some sub"
        "texkey_index s2 k = Some a" "sizes s2 k = Some (PyInt kw, PyInt kh)"
        "uvs s2 k = Some (int_rectangle_uvs x y kw kh W H)"
      by auto
    from load_atlas_content_agree[OF c'] anchor same
    have a2: "textures s2 a = Some texture" "key_index s2 a = Some (basename imgname)"
      "a < key_count s2"
      by (auto simp: agree_below_def)
    from load_atlas_agree[OF rest] have "agree_below (key_count s2) s2 s'" by simp
    with k a2 have "key_index s' k = Some sub" "texkey_index s' k = Some a"
      "sizes s' k = Some (PyInt kw, PyInt kh)"
      "uvs s' k = Some (int_rectangle_uvs x y kw kh W H)"
      "textures s' a = Some texture" "key_index s' a = Some (basename imgname)"
      by (simp_all add: agree_below_def)
    with nz show ?thesis
      by (intro conjI exI[of _ k] exI[of _ a])
         (simp_all add: get_texname_from_texkey_def get_groupkey_from_texkey_def
            get_texture_def get_size_def get_uvs_def lookup_def)
  next
    case False
    with Cons.prems(2) have "(imgname, texture, content) \<in> set rest" by auto
    from Cons.IH[OF rest this] show ?thesis .
  qed
qed

subsection \<open>A sub-image name that is already registered\<close>

text \<open>
  Claim C7, at a concrete input. With a texture registered under the name \<open>a\<close> (key 0),
  \<^verbatim>\<open>load_atlas\<close> of an image with a sub-image named \<open>a\<close> returns without raising. The
  name \<open>a\<close> now leads to the new key 2, while key 0 is still registered and still carries
  the name \<open>a\<close>. \<^verbatim>\<open>load_texture\<close> and \<^verbatim>\<open>load_image\<close> raise KeyError on a name that
  is already registered; the loop over the sub-images has no such test.
\<close>

theorem load_atlas_overwrites_name:
  "get_texkey_from_name ''a'' texture_a_loaded = Inr 0 \<and>
   fst (load_atlas example_atlas texture_a_loaded) = Inr () \<and>
   get_texkey_from_name ''a'' (snd (load_atlas example_atlas texture_a_loaded)) = Inr 2 \<and>
   get_texname_from_texkey 0 (snd (load_atlas example_atlas texture_a_loaded)) = Inr ''a'' \<and>
   get_texname_from_texkey 2 (snd (load_atlas example_atlas texture_a_loaded)) = Inr ''a''"
  by (simp add: texture_a_loaded_eq example_atlas_def load_texture_def
      load_atlas_entry_def atlas_uvs_example basename_sheet size_pair_def example_texture_def
      small_fits
      Let_def get_texkey_from_name_def get_texname_from_texkey_def lookup_def)

subsection \<open>Texture keys and the counter\<close>



































text \<open>
  The same happens when the arithmetic raises OverflowError: the int \<open>10 ^ 309\<close> cannot
  be converted to a float at \<^verbatim>\<open>x1/w\<close>, after the name \<open>a\<close> has been written under
  key 1 and before the counter is incremented.
\<close>

lemma texkey_assigned_twice_overflow:
  "fst (load_atlas huge_atlas init_texture_manager) = Inl OverflowError \<and>
   get_texkey_from_name ''a'' (snd (load_atlas huge_atlas init_texture_manager)) = Inr 1 \<and>
   fst (load_texture ''b'' example_texture (snd (load_atlas huge_atlas init_texture_manager)))
     = Inr 1"
  by (simp add: huge_atlas_def init_texture_manager_def load_texture_def
      load_atlas_entry_def atlas_uvs_huge basename_sheet size_pair_def example_texture_def
      small_fits Let_def get_texkey_from_name_def lookup_def)

end
